theory Spec2Isabelle
  imports Complex_Main "HOL-Library.Word" "HOL-Library.Char_ord" "HOL-Library.List_Lexorder"
    "HOL-Library.Log_Nat" "HOL-Library.Sublist" "HOL-Library.AList"
begin

section \<open>JSON documents and the standard library's decoder\<close>

text \<open>
  \<open>UnmarshalJSON\<close> and \<open>MarshalJSON\<close> hand the bytes to the standard library
  (\<open>encoding/json\<close>, \<open>strconv\<close>). The model works on the value the bytes denote:
  an object is the list of its members in the order they are written, duplicates
  included, and a number is the rational its literal denotes. Strings are byte
  strings, taken to be valid UTF-8. Bytes that are not a JSON text are rejected by
  \<open>json.Unmarshal\<close> before anything is stored; the model starts from a text that
  is well formed.
\<close>

datatype json =
    JNull
  | JBool bool
  | JNumber rat
  | JString string
  | JArray "json list"
  | JObject "(string \<times> json) list"

text \<open>Go's \<open>int\<close>, on the 64-bit targets: a 64-bit two's complement value.\<close>

type_synonym go_int = "64 word"

text \<open>
  The errors \<open>UnmarshalJSON\<close> can return: the decoder's own (an
  \<open>*json.UnmarshalTypeError\<close>, its details left out), or one built by
  \<open>fmt.Errorf\<close> from a message.
\<close>

datatype error = UnmarshalTypeError | Errorf string

subsection \<open>\<open>float64\<close>\<close>

text \<open>
  A finite \<open>float64\<close> is identified with the rational it denotes.
  \<open>strconv.ParseFloat(s, 64)\<close> rounds the literal's value to the nearest
  \<open>float64\<close>, ties to the even mantissa, and fails when the rounded value is out
  of range; \<open>None\<close> is that failure.
\<close>

definition round_half_even :: "rat \<Rightarrow> int" where
  "round_half_even x =
     (let f = \<lfloor>x\<rfloor>; d = x - of_int f
      in if d < 1 / 2 then f else if 1 / 2 < d then f + 1 else if even f then f else f + 1)"

definition pow2 :: "int \<Rightarrow> rat" where
  "pow2 e = (if 0 \<le> e then 2 ^ nat e else 1 / 2 ^ nat (- e))"

text \<open>The binary exponent of a positive rational: \<open>pow2 e \<le> x < pow2 (e + 1)\<close>.\<close>

definition ilog2 :: "rat \<Rightarrow> int" where
  "ilog2 x =
     (let (p, q) = quotient_of x; k = bitlen p - bitlen q
      in if pow2 k \<le> x then k else k - 1)"

definition ParseFloat64 :: "rat \<Rightarrow> rat option" where
  "ParseFloat64 x =
     (if x = 0 then Some 0
      else let a = \<bar>x\<bar>;
               e = max (ilog2 a - 52) (- 1074);
               v = of_int (round_half_even (a / pow2 e)) * pow2 e
           in if 2 ^ 1024 \<le> v then None else Some (sgn x * v))"

text \<open>
  The conversion \<open>int(f)\<close> of a \<open>float64\<close> drops the fraction. When the result
  does not fit, Go leaves the value to the implementation: \<open>impl\<close> is that choice.
\<close>

definition int_of_float64 :: "(rat \<Rightarrow> go_int) \<Rightarrow> rat \<Rightarrow> go_int" where
  "int_of_float64 impl f =
     (let t = (if 0 \<le> f then \<lfloor>f\<rfloor> else \<lceil>f\<rceil>)
      in if - (2 ^ 63) \<le> t \<and> t < 2 ^ 63 then word_of_int t else impl f)"

text \<open>On amd64 the conversion instruction answers \<open>0x8000000000000000\<close> out of range.\<close>

definition amd64 :: "rat \<Rightarrow> go_int" where
  "amd64 f = 0x8000000000000000"

subsection \<open>\<open>strconv.Atoi\<close>\<close>

text \<open>
  An optional sign, then one or more decimal digits and nothing else; the value
  must fit \<open>int\<close>. \<open>None\<close> is a non-nil error.
\<close>

definition is_digit :: "char \<Rightarrow> bool" where
  "is_digit c = (CHR ''0'' \<le> c \<and> c \<le> CHR ''9'')"

definition digits_value :: "string \<Rightarrow> int" where
  "digits_value ds = foldl (\<lambda>n ch. n * 10 + (int (of_char ch) - 48)) 0 ds"

definition Atoi :: "string \<Rightarrow> go_int option" where
  "Atoi s =
     (let (neg, ds) =
            (case s of
               [] \<Rightarrow> (False, [])
             | c # r \<Rightarrow>
                 if c = CHR ''-'' then (True, r)
                 else if c = CHR ''+'' then (False, r)
                 else (False, s))
      in if ds = [] \<or> \<not> list_all is_digit ds then None
         else let n = (if neg then - digits_value ds else digits_value ds)
              in if - (2 ^ 63) \<le> n \<and> n < 2 ^ 63 then Some (word_of_int n) else None)"

subsection \<open>Matching an object key to a struct field\<close>

text \<open>
  The decoder takes the field whose name is the key, and failing that the field whose
  name equals the key up to case. Folding maps a letter to its capital; the Kelvin
  sign (bytes \<open>E2 84 AA\<close>) and the long s (bytes \<open>C5 BF\<close>) fold to \<open>K\<close> and \<open>S\<close>.
  Any other rune beyond ASCII folds to a rune beyond ASCII, so for the comparison with
  an ASCII name its bytes can stay as they are.
\<close>

definition upper :: "char \<Rightarrow> char" where
  "upper c = (if CHR ''a'' \<le> c \<and> c \<le> CHR ''z'' then char_of (of_char c - 32 :: nat) else c)"

fun foldName :: "string \<Rightarrow> string" where
  "foldName (a # b # c # cs) =
     (if a = CHR 0xE2 \<and> b = CHR 0x84 \<and> c = CHR 0xAA then CHR ''K'' # foldName cs
      else if a = CHR 0xC5 \<and> b = CHR 0xBF then CHR ''S'' # foldName (c # cs)
      else upper a # foldName (b # c # cs))"
| "foldName [a, b] =
     (if a = CHR 0xC5 \<and> b = CHR 0xBF then [CHR ''S''] else upper a # foldName [b])"
| "foldName [a] = [upper a]"
| "foldName [] = []"

text \<open>
  The fields of the wrapper struct that the decoder sees, with their JSON names:
  the three tagged fields promoted from the embedded \<open>*clientJWTConfiguration\<close>, and
  \<open>RawLifetimeInSeconds\<close>. \<open>LifetimeInSeconds\<close> is tagged \<open>json:"-"\<close> and is
  not one of them.
\<close>

datatype field = SecretEncoded_field | Scopes_field | Algorithm_field | RawLifetimeInSeconds_field

definition fields :: "(string \<times> field) list" where
  "fields =
     [(''secret_encoded'', SecretEncoded_field),
      (''scopes'', Scopes_field),
      (''alg'', Algorithm_field),
      (''lifetime_in_seconds'', RawLifetimeInSeconds_field)]"

definition lookup_field :: "string \<Rightarrow> field option" where
  "lookup_field key =
     (case map_of fields key of
        Some f \<Rightarrow> Some f
      | None \<Rightarrow> map_of (map (\<lambda>(n, f). (foldName n, f)) fields) (foldName key))"

section \<open>\<open>ClientJWTConfiguration\<close>\<close>

text \<open>
  The fields are pointers to values that the two methods read and allocate, so the
  model keeps the values: \<open>None\<close> is \<open>nil\<close>. A Go map is \<open>None\<close> when nil and
  otherwise the list of its bindings, the first binding of a key being the one that
  counts.
\<close>

type_synonym go_map = "(string \<times> string) list option"

record ClientJWTConfiguration =
  LifetimeInSeconds :: "go_int option"
  SecretEncoded :: "bool option"
  Scopes :: "go_map option"
  Algorithm :: "string option"

definition ClientJWTConfiguration_zero :: ClientJWTConfiguration where
  "ClientJWTConfiguration_zero =
     \<lparr>LifetimeInSeconds = None, SecretEncoded = None, Scopes = None, Algorithm = None\<rparr>"

subsection \<open>\<open>json.Unmarshal\<close> into the wrapper struct\<close>

text \<open>
  What an \<open>interface{}\<close> holds after the decoder stored a JSON value in it. The
  contents of a slice or of a map are never looked at and are left out.
\<close>

datatype iface = Nil | Float64 rat | String string | Bool bool | Slice | Map

text \<open>
  Inside an array or an object stored in an \<open>interface{}\<close> every number is
  converted too, and one that is out of range is an error of the decoder.
\<close>

fun range_error :: "json \<Rightarrow> bool" where
  "range_error (JNumber x) = (ParseFloat64 x = None)"
| "range_error (JArray xs) = list_ex range_error xs"
| "range_error (JObject kvs) = list_ex (\<lambda>kv. range_error (snd kv)) kvs"
| "range_error _ = False"

text \<open>
  Storing a JSON value in a pointer field. \<open>null\<close> sets the pointer to \<open>nil\<close>. Any
  other value first allocates the zero value when the pointer is \<open>nil\<close>; a value of
  the wrong JSON type is then recorded as an error and the decoder goes on. The
  result is the error flag and the field.
\<close>

definition decode_bool_ptr :: "json \<Rightarrow> bool option \<Rightarrow> bool \<times> bool option" where
  "decode_bool_ptr j cur =
     (case j of
        JNull \<Rightarrow> (False, None)
      | JBool b \<Rightarrow> (False, Some b)
      | _ \<Rightarrow> (True, Some (case cur of None \<Rightarrow> False | Some v \<Rightarrow> v)))"

definition decode_string_ptr :: "json \<Rightarrow> string option \<Rightarrow> bool \<times> string option" where
  "decode_string_ptr j cur =
     (case j of
        JNull \<Rightarrow> (False, None)
      | JString s \<Rightarrow> (False, Some s)
      | _ \<Rightarrow> (True, Some (case cur of None \<Rightarrow> [] | Some v \<Rightarrow> v)))"

text \<open>
  A member of an object decoded into a \<open>map[string]string\<close>: the element starts as
  the empty string, a JSON string sets it, \<open>null\<close> leaves it, anything else is an
  error; the key is bound to the element in every case.
\<close>

definition decode_map_member :: "string \<times> json \<Rightarrow> bool \<times> (string \<times> string) list
    \<Rightarrow> bool \<times> (string \<times> string) list" where
  "decode_map_member kv st =
     (case snd kv of
        JString s \<Rightarrow> (fst st, AList.update (fst kv) s (snd st))
      | JNull \<Rightarrow> (fst st, AList.update (fst kv) [] (snd st))
      | _ \<Rightarrow> (True, AList.update (fst kv) [] (snd st)))"

definition decode_map_ptr :: "json \<Rightarrow> go_map option \<Rightarrow> bool \<times> go_map option" where
  "decode_map_ptr j cur =
     (case j of
        JNull \<Rightarrow> (False, None)
      | JObject kvs \<Rightarrow>
          (let m0 = (case cur of Some (Some m) \<Rightarrow> m | _ \<Rightarrow> []);
               (e, m) = fold decode_map_member kvs (False, m0)
           in (e, Some (Some m)))
      | _ \<Rightarrow> (True, Some (case cur of None \<Rightarrow> None | Some m \<Rightarrow> m)))"

text \<open>
  Storing a JSON value in \<open>RawLifetimeInSeconds\<close>, of type \<open>interface{}\<close>:
  \<open>null\<close> is stored as \<open>nil\<close>, a boolean as a \<open>bool\<close>, a number as the
  \<open>float64\<close> that \<open>strconv.ParseFloat\<close> reads, a string as a \<open>string\<close>, an array
  as a slice and an object as a map. A number out of the range of \<open>float64\<close> is an
  error and stores nothing. The result is the error flag and what the interface
  holds, \<open>raw\<close> being what it held before.
\<close>

definition decode_interface :: "json \<Rightarrow> iface \<Rightarrow> bool \<times> iface" where
  "decode_interface j raw =
     (case j of
        JNull \<Rightarrow> (False, Nil)
      | JBool b \<Rightarrow> (False, Bool b)
      | JNumber x \<Rightarrow> (case ParseFloat64 x of None \<Rightarrow> (True, raw) | Some f \<Rightarrow> (False, Float64 f))
      | JString s \<Rightarrow> (False, String s)
      | JArray xs \<Rightarrow> (range_error (JArray xs), Slice)
      | JObject kvs \<Rightarrow> (range_error (JObject kvs), Map))"

text \<open>
  The state of a decoding run: whether an error has been recorded, the receiver
  \<open>jc\<close> (reached through the embedded pointer and written in place) and
  \<open>RawLifetimeInSeconds\<close>. One member of the object is stored in the field its key
  selects; a key that selects no field is skipped.
\<close>

type_synonym decode_state = "bool \<times> ClientJWTConfiguration \<times> iface"

definition object_member :: "string \<times> json \<Rightarrow> decode_state \<Rightarrow> decode_state" where
  "object_member kv st =
     (case st of (err, jc, raw) \<Rightarrow>
        (case lookup_field (fst kv) of
           None \<Rightarrow> (err, jc, raw)
         | Some SecretEncoded_field \<Rightarrow>
             (let (e, p) = decode_bool_ptr (snd kv) (SecretEncoded jc)
              in (err \<or> e, jc\<lparr>SecretEncoded := p\<rparr>, raw))
         | Some Scopes_field \<Rightarrow>
             (let (e, p) = decode_map_ptr (snd kv) (Scopes jc)
              in (err \<or> e, jc\<lparr>Scopes := p\<rparr>, raw))
         | Some Algorithm_field \<Rightarrow>
             (let (e, p) = decode_string_ptr (snd kv) (Algorithm jc)
              in (err \<or> e, jc\<lparr>Algorithm := p\<rparr>, raw))
         | Some RawLifetimeInSeconds_field \<Rightarrow>
             (let (e, r) = decode_interface (snd kv) raw
              in (err \<or> e, jc, r))))"

text \<open>
  \<open>json.Unmarshal(b, alias)\<close>: an object is decoded member by member, \<open>null\<close>
  changes nothing, any other value is an error. The decoder returns its error only
  after it has gone through the whole value.
\<close>

definition json_Unmarshal :: "json \<Rightarrow> ClientJWTConfiguration \<times> iface \<Rightarrow> decode_state" where
  "json_Unmarshal b alias =
     (case b of
        JObject kvs \<Rightarrow> fold object_member kvs (False, fst alias, snd alias)
      | JNull \<Rightarrow> (False, fst alias, snd alias)
      | _ \<Rightarrow> (True, fst alias, snd alias))"

subsection \<open>\<open>UnmarshalJSON\<close>\<close>

definition unexpectedTypeError :: error where
  "unexpectedTypeError = Errorf ''unexpected type for field lifetime_in_seconds''"

text \<open>
  The result is the returned error (\<open>None\<close> for \<open>nil\<close>) and the receiver as the
  call leaves it.
\<close>

definition UnmarshalJSON ::
  "(rat \<Rightarrow> go_int) \<Rightarrow> ClientJWTConfiguration \<Rightarrow> json \<Rightarrow> error option \<times> ClientJWTConfiguration" where
  "UnmarshalJSON impl jc b =
     (case json_Unmarshal b (jc, Nil) of (err, jc', RawLifetimeInSeconds) \<Rightarrow>
        if err then (Some UnmarshalTypeError, jc')
        else (case RawLifetimeInSeconds of
                Nil \<Rightarrow> (None, jc')
              | Float64 rawLifetimeInSeconds \<Rightarrow>
                  (None, jc'\<lparr>LifetimeInSeconds := Some (int_of_float64 impl rawLifetimeInSeconds)\<rparr>)
              | String rawLifetimeInSeconds \<Rightarrow>
                  (case Atoi rawLifetimeInSeconds of
                     None \<Rightarrow> (Some unexpectedTypeError, jc')
                   | Some v \<Rightarrow> (None, jc'\<lparr>LifetimeInSeconds := Some v\<rparr>))
              | _ \<Rightarrow> (Some unexpectedTypeError, jc')))"

subsection \<open>\<open>MarshalJSON\<close>\<close>

text \<open>
  \<open>json.Marshal\<close> of the wrapper struct writes the fields in the order of their
  declaration, the promoted ones first, and leaves out a field tagged \<open>omitempty\<close>
  whose pointer or interface is \<open>nil\<close>. In \<open>MarshalJSON\<close> the interface
  \<open>RawLifetimeInSeconds\<close> is \<open>nil\<close> or holds an \<open>*int\<close>, written as the decimal
  numeral of the integer. A map is written with its keys sorted, a nil map as
  \<open>null\<close>. None of these values makes the encoder fail, so the result is the
  document alone.
\<close>

definition marshal_map :: "go_map \<Rightarrow> json" where
  "marshal_map m =
     (case m of
        None \<Rightarrow> JNull
      | Some al \<Rightarrow> JObject (map (\<lambda>(k, v). (k, JString v)) (sort_key fst (AList.clearjunk al))))"

definition json_Marshal :: "ClientJWTConfiguration \<times> go_int option \<Rightarrow> json" where
  "json_Marshal alias =
     JObject
       ((case SecretEncoded (fst alias) of None \<Rightarrow> [] | Some b \<Rightarrow> [(''secret_encoded'', JBool b)])
        @ (case Scopes (fst alias) of None \<Rightarrow> [] | Some m \<Rightarrow> [(''scopes'', marshal_map m)])
        @ (case Algorithm (fst alias) of None \<Rightarrow> [] | Some s \<Rightarrow> [(''alg'', JString s)])
        @ (case snd alias of
             None \<Rightarrow> [] | Some n \<Rightarrow> [(''lifetime_in_seconds'', JNumber (of_int (sint n)))]))"

definition MarshalJSON :: "ClientJWTConfiguration \<Rightarrow> json" where
  "MarshalJSON jc =
     (let alias = (jc, None);
          alias = (if LifetimeInSeconds jc \<noteq> None then (fst alias, LifetimeInSeconds jc) else alias)
      in json_Marshal alias)"

subsection \<open>Vocabulary for the properties\<close>

text \<open>
  The value an object gives a field: that of its last member whose key selects the
  field, as later members overwrite earlier ones.
\<close>

definition member_of :: "field \<Rightarrow> (string \<times> json) list \<Rightarrow> json option" where
  "member_of fld kvs =
     fold (\<lambda>kv r. if lookup_field (fst kv) = Some fld then Some (snd kv) else r) kvs None"

text \<open>The members of an object.\<close>

fun members :: "json \<Rightarrow> (string \<times> json) list" where
  "members (JObject kvs) = kvs"
| "members _ = []"

section \<open>Credentials: \<open>ClientManager.UpdateCredential\<close>\<close>

text \<open>
  Every field of the Go struct \<open>Credential\<close> is a pointer (\<open>*string\<close>, \<open>*bool\<close>,
  \<open>*time.Time\<close>). A field of the model is the pointer: \<open>None\<close> for \<open>nil\<close> and
  \<open>Some a\<close> for the address \<open>a\<close>. What an address holds is in the heap, a map from
  addresses to values that is \<open>None\<close> where nothing is allocated.
\<close>

record 'a Credential =
  ID :: "'a option"
  Name :: "'a option"
  KeyID :: "'a option"
  CredentialType :: "'a option"
  PEM :: "'a option"
  Algorithm :: "'a option"
  ParseExpiryFromCert :: "'a option"
  CreatedAt :: "'a option"
  UpdatedAt :: "'a option"
  ExpiresAt :: "'a option"

type_synonym ('a, 'v) heap = "'a \<Rightarrow> 'v option"

text \<open>
  \<open>ClientManager\<close> embeds \<open>*Management\<close>, whose methods \<open>URI\<close> and \<open>Request\<close>
  are declared in another file of the package. They are parameters of the model:
  \<open>URI\<close> builds the address from path segments, and \<open>Request method uri v opts\<close>
  performs one HTTP exchange with payload \<open>v\<close>. The payload is passed by pointer and
  the response is decoded into it, through the pointers it holds: the result is the
  error (\<open>None\<close> for \<open>nil\<close>), the payload as the call left it, and the heap as the
  call left it.
\<close>

record ('a, 'v, 'o, 'e) Management =
  URI :: "string list \<Rightarrow> string"
  Request :: "string \<Rightarrow> string \<Rightarrow> 'a Credential \<Rightarrow> 'o list \<Rightarrow> ('a, 'v) heap
                \<Rightarrow> 'e option \<times> 'a Credential \<times> ('a, 'v) heap"

text \<open>One call of \<open>m.Request\<close>: method, address, payload as handed over, options.\<close>

type_synonym ('a, 'o) request = "string \<times> string \<times> 'a Credential \<times> 'o list"

text \<open>
  The state a call of \<open>UpdateCredential\<close> runs in: the heap, and the requests issued
  so far, oldest first. \<open>call\<close> is the one way the model uses \<open>m.Request\<close>: it
  applies it to a request in the current heap and notes that request.
\<close>

type_synonym ('a, 'v, 'o) state = "('a, 'v) heap \<times> ('a, 'o) request list"

definition call :: "('a, 'v, 'o, 'e) Management \<Rightarrow> ('a, 'o) request \<Rightarrow> ('a, 'v, 'o) state
    \<Rightarrow> 'e option \<times> 'a Credential \<times> ('a, 'v, 'o) state" where
  "call m rq st =
     (case rq of (method, uri, v, opts) \<Rightarrow>
        (case Request m method uri v opts (fst st) of
           (err, v', h') \<Rightarrow> (err, v', (h', snd st @ [rq]))))"

text \<open>The zero value \<open>Credential{}\<close>.\<close>

definition Credential_zero :: "'a Credential" where
  "Credential_zero =
     \<lparr>ID = None, Name = None, KeyID = None, CredentialType = None, PEM = None,
      Algorithm = None, ParseExpiryFromCert = None, CreatedAt = None, UpdatedAt = None,
      ExpiresAt = None\<rparr>"

text \<open>
  \<open>UpdateCredential\<close> returns the error, the caller's struct as the call leaves it
  (the argument is a pointer, written through on success), and the state. The clone
  is a new struct, but its \<open>ExpiresAt\<close> is the caller's pointer: the two structs share
  the time it points to.
\<close>

definition UpdateCredential ::
  "('a, 'v, 'o, 'e) Management \<Rightarrow> string \<Rightarrow> string \<Rightarrow> 'a Credential \<Rightarrow> 'o list
     \<Rightarrow> ('a, 'v, 'o) state \<Rightarrow> 'e option \<times> 'a Credential \<times> ('a, 'v, 'o) state" where
  "UpdateCredential m clientID credentialID credential opts st =
     (let credentialClone = Credential_zero\<lparr>ExpiresAt := ExpiresAt credential\<rparr>;
          (err, credentialClone', st') =
            call m (''PATCH'', URI m [''clients'', clientID, ''credentials'', credentialID],
                    credentialClone, opts) st
      in case err of
           Some e \<Rightarrow> (Some e, credential, st')
         | None \<Rightarrow>
             (None,
              credential
                \<lparr>ID := ID credentialClone',
                 Name := Name credentialClone',
                 CredentialType := CredentialType credentialClone',
                 KeyID := KeyID credentialClone',
                 Algorithm := Algorithm credentialClone',
                 CreatedAt := CreatedAt credentialClone',
                 UpdatedAt := UpdatedAt credentialClone',
                 ExpiresAt := ExpiresAt credentialClone'\<rparr>,
              st'))"

subsection \<open>Vocabulary for the properties of \<open>UpdateCredential\<close>\<close>

text \<open>
  The credential as its holder reads it: every field followed to the value it points
  to.
\<close>

definition view :: "('a, 'v) heap \<Rightarrow> 'a Credential \<Rightarrow> 'v Credential" where
  "view h c =
     \<lparr>ID = Option.bind (ID c) h, Name = Option.bind (Name c) h,
      KeyID = Option.bind (KeyID c) h, CredentialType = Option.bind (CredentialType c) h,
      PEM = Option.bind (PEM c) h, Algorithm = Option.bind (Algorithm c) h,
      ParseExpiryFromCert = Option.bind (ParseExpiryFromCert c) h,
      CreatedAt = Option.bind (CreatedAt c) h, UpdatedAt = Option.bind (UpdatedAt c) h,
      ExpiresAt = Option.bind (ExpiresAt c) h\<rparr>"

text \<open>The addresses a struct holds.\<close>

definition pointers :: "'a Credential \<Rightarrow> 'a set" where
  "pointers c =
     set_option (ID c) \<union> set_option (Name c) \<union> set_option (KeyID c)
     \<union> set_option (CredentialType c) \<union> set_option (PEM c) \<union> set_option (Algorithm c)
     \<union> set_option (ParseExpiryFromCert c) \<union> set_option (CreatedAt c)
     \<union> set_option (UpdatedAt c) \<union> set_option (ExpiresAt c)"

text \<open>
  A transport that writes to the heap only through the pointers of its payload:
  whatever else was allocated before a request holds the same value after it.
\<close>

definition writes_through_payload :: "('a, 'v, 'o, 'e) Management \<Rightarrow> bool" where
  "writes_through_payload m =
     (\<forall>method uri v opts h a.
        h a \<noteq> None \<longrightarrow> a \<notin> pointers v
          \<longrightarrow> snd (snd (Request m method uri v opts h)) a = h a)"

text \<open>
  The fields other than \<open>ExpiresAt\<close> point to allocated values, and none of them
  points to the time \<open>ExpiresAt\<close> points to.
\<close>

definition apart :: "('a, 'v) heap \<Rightarrow> 'a Credential \<Rightarrow> bool" where
  "apart h c =
     (\<forall>a \<in> pointers (c\<lparr>ExpiresAt := None\<rparr>). h a \<noteq> None \<and> Some a \<noteq> ExpiresAt c)"

subsection \<open>Sample values\<close>

text \<open>
  Addresses are numbers and values are written as strings. \<open>answering\<close> is a
  transport whose server returns the fields it assigns and the expiry: the decoder
  allocates the new fields, at the addresses 1 to 7 where they are free, and writes the
  expiry through the pointer the payload holds. With \<open>failing_late\<close> the response is decoded until a member of the
  wrong type makes the decoding fail, after the expiry has been written. \<open>held\<close> is a credential as
  a caller may hold it, in the heap \<open>store\<close>.
\<close>

definition answering :: "(nat, string, unit, string) Management" where
  "answering =
     \<lparr>URI = concat,
      Request = (\<lambda>method uri v opts h.
        (None,
         v\<lparr>ID := Some 1, Name := Some 2, KeyID := Some 3, CredentialType := Some 4,
           Algorithm := Some 5, CreatedAt := Some 6, UpdatedAt := Some 7\<rparr>,
         [1 \<mapsto> ''cred_1'', 2 \<mapsto> ''key'', 3 \<mapsto> ''kid'', 4 \<mapsto> ''public_key'',
          5 \<mapsto> ''RS256'', 6 \<mapsto> ''2024-01-01T00:00:00Z'', 7 \<mapsto> ''2024-06-01T00:00:00Z'']
         ++ (case ExpiresAt v of
               None \<Rightarrow> h
             | Some a \<Rightarrow> h(a \<mapsto> ''2030-01-01T00:00:00Z''))))\<rparr>"


definition held :: "nat Credential" where
  "held =
     \<lparr>ID = None, Name = Some 10, KeyID = None, CredentialType = None, PEM = Some 11,
      Algorithm = None, ParseExpiryFromCert = Some 12, CreatedAt = None, UpdatedAt = None,
      ExpiresAt = Some 13\<rparr>"

definition store :: "(nat, string) heap" where
  "store =
     [10 \<mapsto> ''key'', 11 \<mapsto> ''-----BEGIN PUBLIC KEY-----'', 12 \<mapsto> ''true'',
      13 \<mapsto> ''2025-01-01T00:00:00Z'']"

section \<open>Facts about the library functions\<close>

subsection \<open>Integers are read back exactly up to \<open>2 ^ 53\<close>\<close>

lemma round_half_even_of_int: "round_half_even (of_int z) = z"
  by (simp add: round_half_even_def)

lemma ilog2_of_int:
  assumes "0 < n"
  shows "ilog2 (of_int n) = bitlen n - 1"
proof -
  have b: "2 ^ nat (bitlen n - 1) \<le> n"
    using bitlen_bounds [OF assms] by simp
  have k: "0 \<le> bitlen n - 1"
    using assms bitlen_nonneg [of n] bitlen_eq_zero_iff [of n] by linarith
  have "(2::rat) ^ nat (bitlen n - 1) \<le> of_int n"
  proof -
    have "(of_int (2 ^ nat (bitlen n - 1)) :: rat) \<le> of_int n"
      using b by (simp only: of_int_le_iff)
    then show ?thesis by simp
  qed
  then have "pow2 (bitlen n - 1) \<le> of_int n"
    using k by (simp add: pow2_def)
  moreover have "quotient_of (of_int n) = (n, 1)"
    by (metis Rat.of_int_def quotient_of_int)
  moreover have "bitlen 1 = 1"
    by code_simp
  ultimately show ?thesis
    by (simp add: ilog2_def)
qed

lemma ParseFloat64_2_53: "ParseFloat64 9007199254740992 = Some 9007199254740992"
  by code_simp

lemma ParseFloat64_of_int:
  assumes "0 \<le> n" and "n \<le> 2 ^ 53"
  shows "ParseFloat64 (of_int n) = Some (of_int n)"
proof (cases "n = 0")
  case True
  then show ?thesis by (simp add: ParseFloat64_def)
next
  case False
  with assms have pos: "0 < n" by simp
  define k where "k = bitlen n - 1"
  have il: "ilog2 (of_int n) = k"
    using ilog2_of_int [OF pos] by (simp add: k_def)
  have k0: "0 \<le> k"
    using pos bitlen_nonneg [of n] bitlen_eq_zero_iff [of n] unfolding k_def by linarith
  have lo: "2 ^ nat k \<le> n"
    using bitlen_bounds [OF pos] by (simp add: k_def)
  have "(2::int) ^ nat k \<le> 2 ^ 53"
    using lo assms(2) by linarith
  then have "nat k \<le> 53"
    by (rule power_le_imp_le_exp [rotated]) simp
  then have k53: "k \<le> 53" by linarith
  show ?thesis
  proof (cases "k = 53")
    case True
    then have "n = 2 ^ 53"
      using lo assms(2) by simp
    then show ?thesis
      using ParseFloat64_2_53 by simp
  next
    case False
    with k53 have k52: "k \<le> 52" by linarith
    define j where "j = nat (52 - k)"
    have e: "max (k - 52) (- 1074) = k - 52"
      using k0 by simp
    have p: "pow2 (k - 52) = 1 / 2 ^ j"
      using k52 by (cases "k = 52") (simp_all add: pow2_def j_def)
    have d: "(of_int n :: rat) / pow2 (k - 52) = of_int (n * 2 ^ j)"
      by (simp add: p)
    have v: "of_int (round_half_even ((of_int n :: rat) / pow2 (k - 52))) * pow2 (k - 52)
               = (of_int n :: rat)"
      by (simp only: d round_half_even_of_int) (simp add: p)
    have "(of_int n :: rat) \<le> of_int (2 ^ 53)"
      using assms(2) by (simp only: of_int_le_iff)
    then have small: "\<not> (2 ^ 1024 \<le> (of_int n :: rat))"
      by simp
    have nz: "(of_int n :: rat) \<noteq> 0" and ab: "\<bar>of_int n :: rat\<bar> = of_int n"
      and sg: "sgn (of_int n :: rat) = 1"
      using pos by simp_all
    show ?thesis
      unfolding ParseFloat64_def Let_def ab il e v
      using nz small sg by simp
  qed
qed

lemma int_of_float64_of_int:
  assumes "- (2 ^ 63) \<le> n" and "n < 2 ^ 63"
  shows "int_of_float64 impl (of_int n) = word_of_int n"
  using assms by (simp add: int_of_float64_def)

subsection \<open>Keys and members\<close>

lemma lookup_field_names:
  "lookup_field ''secret_encoded'' = Some SecretEncoded_field"
  "lookup_field ''scopes'' = Some Scopes_field"
  "lookup_field ''alg'' = Some Algorithm_field"
  "lookup_field ''lifetime_in_seconds'' = Some RawLifetimeInSeconds_field"
  by code_simp+

lemma member_of_Nil: "member_of fld [] = None"
  by (simp add: member_of_def)

lemma member_of_snoc:
  "member_of fld (kvs @ [kv]) =
     (if lookup_field (fst kv) = Some fld then Some (snd kv) else member_of fld kvs)"
  by (simp add: member_of_def)

section \<open>Facts about \<open>json.Unmarshal\<close> and the two methods\<close>

text \<open>
  A recorded error stays recorded, \<open>LifetimeInSeconds\<close> is out of the decoder's
  reach, and when no error is recorded \<open>RawLifetimeInSeconds\<close> holds what the last
  member for it stored.
\<close>

lemma decode_interface_same:
  "\<not> fst (decode_interface v r) \<Longrightarrow> decode_interface v r' = decode_interface v r"
  by (cases v) (auto simp: decode_interface_def split: option.splits)

lemma object_member_error:
  "fst st \<Longrightarrow> fst (object_member kv st)"
  by (cases st)
    (auto simp: object_member_def Let_def split: option.splits field.splits prod.splits)

lemma fold_object_member_error:
  "fst st \<Longrightarrow> fst (fold object_member kvs st)"
  by (induction kvs arbitrary: st) (simp_all add: object_member_error)

lemma object_member_LifetimeInSeconds:
  "LifetimeInSeconds (fst (snd (object_member kv st))) = LifetimeInSeconds (fst (snd st))"
  by (cases st)
    (auto simp: object_member_def Let_def split: option.splits field.splits prod.splits)

lemma fold_object_member_LifetimeInSeconds:
  "LifetimeInSeconds (fst (snd (fold object_member kvs st))) = LifetimeInSeconds (fst (snd st))"
  by (induction kvs arbitrary: st) (simp_all add: object_member_LifetimeInSeconds)

lemma object_member_raw:
  "snd (snd (object_member kv st)) =
     (if lookup_field (fst kv) = Some RawLifetimeInSeconds_field
      then snd (decode_interface (snd kv) (snd (snd st))) else snd (snd st))"
  by (cases st)
    (auto simp: object_member_def Let_def split: option.splits field.splits prod.splits)

lemma object_member_raw_error:
  "\<not> fst (object_member kv st) \<Longrightarrow> lookup_field (fst kv) = Some RawLifetimeInSeconds_field
     \<Longrightarrow> \<not> fst (decode_interface (snd kv) (snd (snd st)))"
  by (cases st)
    (auto simp: object_member_def Let_def split: option.splits field.splits prod.splits)

lemma fold_object_member_raw:
  assumes "\<not> fst (fold object_member kvs st)"
  shows "snd (snd (fold object_member kvs st)) =
           (case member_of RawLifetimeInSeconds_field kvs of
              None \<Rightarrow> snd (snd st)
            | Some v \<Rightarrow> snd (decode_interface v Nil))
         \<and> (\<forall>v. member_of RawLifetimeInSeconds_field kvs = Some v
               \<longrightarrow> \<not> fst (decode_interface v Nil))"
  using assms
proof (induction kvs rule: rev_induct)
  case Nil
  then show ?case by (simp add: member_of_Nil)
next
  case (snoc kv kvs)
  let ?st = "fold object_member kvs st"
  from snoc.prems have ne: "\<not> fst (object_member kv ?st)" by simp
  then have "\<not> fst ?st"
    using object_member_error by blast
  note ih = snoc.IH [OF this]
  show ?case
  proof (cases "lookup_field (fst kv) = Some RawLifetimeInSeconds_field")
    case True
    have "\<not> fst (decode_interface (snd kv) (snd (snd ?st)))"
      using object_member_raw_error [OF ne True] .
    then have "decode_interface (snd kv) Nil = decode_interface (snd kv) (snd (snd ?st))"
      by (rule decode_interface_same)
    with True \<open>\<not> fst (decode_interface (snd kv) (snd (snd ?st)))\<close> show ?thesis
      by (simp add: member_of_snoc object_member_raw)
  next
    case False
    with ih show ?thesis
      by (simp add: member_of_snoc object_member_raw)
  qed
qed

lemma UnmarshalJSON_object:
  assumes "\<not> fst (json_Unmarshal (JObject kvs) (jc, Nil))"
  shows "UnmarshalJSON impl jc (JObject kvs) =
    (let jc' = fst (snd (json_Unmarshal (JObject kvs) (jc, Nil)))
     in case member_of RawLifetimeInSeconds_field kvs of
          None \<Rightarrow> (None, jc')
        | Some v \<Rightarrow>
            (case snd (decode_interface v Nil) of
               Nil \<Rightarrow> (None, jc')
             | Float64 f \<Rightarrow> (None, jc'\<lparr>LifetimeInSeconds := Some (int_of_float64 impl f)\<rparr>)
             | String s \<Rightarrow>
                 (case Atoi s of
                    None \<Rightarrow> (Some unexpectedTypeError, jc')
                  | Some n \<Rightarrow> (None, jc'\<lparr>LifetimeInSeconds := Some n\<rparr>))
             | _ \<Rightarrow> (Some unexpectedTypeError, jc')))"
proof -
  let ?st = "fold object_member kvs (False, jc, Nil)"
  have ne: "\<not> fst ?st"
    using assms by (simp add: json_Unmarshal_def)
  obtain e jc' raw where st: "?st = (e, jc', raw)"
    by (cases ?st) auto
  have raw: "raw = (case member_of RawLifetimeInSeconds_field kvs of
              None \<Rightarrow> Nil | Some v \<Rightarrow> snd (decode_interface v Nil))"
    using fold_object_member_raw [OF ne] st by (simp split: option.splits)
  have e: "\<not> e" using ne st by simp
  show ?thesis
    using e raw st
    by (simp add: UnmarshalJSON_def json_Unmarshal_def split: option.splits iface.splits)
qed

lemma json_Unmarshal_LifetimeInSeconds:
  "LifetimeInSeconds (fst (snd (json_Unmarshal b (jc, raw)))) = LifetimeInSeconds jc"
  by (cases b) (simp_all add: json_Unmarshal_def fold_object_member_LifetimeInSeconds)

lemma ParseFloat64_3600: "ParseFloat64 3600 = Some 3600"
  by code_simp

lemma Atoi_3600: "Atoi ''3600'' = Some 3600"
  by code_simp

lemma int_of_float64_3600: "int_of_float64 impl 3600 = 3600"
  by (simp add: int_of_float64_def)

section \<open>Properties of the codec\<close>

text \<open>
  C2. Decoding the object whose only member is \<open>lifetime_in_seconds\<close> with the
  number 3600 succeeds and sets \<open>LifetimeInSeconds\<close> to 3600; decoding the one
  where the value is the string \<open>"3600"\<close> succeeds with the same record. This
  holds for every receiver and every choice of the implementation.
\<close>

theorem decode_3600_number_and_string:
  "UnmarshalJSON impl jc (JObject [(''lifetime_in_seconds'', JNumber 3600)])
     = (None, jc\<lparr>LifetimeInSeconds := Some 3600\<rparr>)
   \<and> UnmarshalJSON impl jc (JObject [(''lifetime_in_seconds'', JString ''3600'')])
     = (None, jc\<lparr>LifetimeInSeconds := Some 3600\<rparr>)"
  by (simp add: UnmarshalJSON_def json_Unmarshal_def object_member_def lookup_field_names
      decode_interface_def ParseFloat64_3600 Atoi_3600 int_of_float64_3600)

text \<open>The members \<open>MarshalJSON\<close> writes.\<close>

lemma MarshalJSON_members:
  "members (MarshalJSON jc) =
     (case SecretEncoded jc of None \<Rightarrow> [] | Some b \<Rightarrow> [(''secret_encoded'', JBool b)])
     @ (case Scopes jc of None \<Rightarrow> [] | Some m \<Rightarrow> [(''scopes'', marshal_map m)])
     @ (case ClientJWTConfiguration.Algorithm jc of None \<Rightarrow> [] | Some s \<Rightarrow> [(''alg'', JString s)])
     @ (case LifetimeInSeconds jc of
          None \<Rightarrow> [] | Some n \<Rightarrow> [(''lifetime_in_seconds'', JNumber (of_int (sint n)))])"
  by (cases "LifetimeInSeconds jc") (simp_all add: MarshalJSON_def json_Marshal_def Let_def)

lemma MarshalJSON_object: "MarshalJSON jc = JObject (members (MarshalJSON jc))"
  by (simp add: MarshalJSON_def json_Marshal_def Let_def)

text \<open>
  C4. Let an object have no member whose key selects \<open>lifetime_in_seconds\<close>.
  Decoding it reports nothing for that field: the call returns \<open>nil\<close>, unless the
  decoder found a type error in another member, which is then the error returned. The
  field keeps the value the receiver had, so it is unset in a record that is new.
  Encoding a record whose \<open>LifetimeInSeconds\<close> is unset writes an object with no
  member for the key \<open>lifetime_in_seconds\<close>.
\<close>

theorem absent_key:
  assumes "member_of RawLifetimeInSeconds_field kvs = None"
    and "LifetimeInSeconds jc = None"
  shows "fst (UnmarshalJSON impl jc0 (JObject kvs))
           = (if fst (json_Unmarshal (JObject kvs) (jc0, Nil)) then Some UnmarshalTypeError else None)
         \<and> LifetimeInSeconds (snd (UnmarshalJSON impl jc0 (JObject kvs))) = LifetimeInSeconds jc0
         \<and> (\<exists>ms. MarshalJSON jc = JObject ms \<and> ''lifetime_in_seconds'' \<notin> fst ` set ms)"
proof -
  have "''lifetime_in_seconds'' \<notin> fst ` set (members (MarshalJSON jc))"
    using assms(2) by (auto simp: MarshalJSON_members split: option.splits)
  then have enc: "\<exists>ms. MarshalJSON jc = JObject ms \<and> ''lifetime_in_seconds'' \<notin> fst ` set ms"
    using MarshalJSON_object [of jc] by blast
  show ?thesis
  proof (cases "fst (json_Unmarshal (JObject kvs) (jc0, Nil))")
    case True
    then have "UnmarshalJSON impl jc0 (JObject kvs)
                 = (Some UnmarshalTypeError, fst (snd (json_Unmarshal (JObject kvs) (jc0, Nil))))"
      by (cases "json_Unmarshal (JObject kvs) (jc0, Nil)") (simp add: UnmarshalJSON_def)
    with True enc show ?thesis
      by (simp add: json_Unmarshal_LifetimeInSeconds)
  next
    case False
    have "UnmarshalJSON impl jc0 (JObject kvs)
            = (None, fst (snd (json_Unmarshal (JObject kvs) (jc0, Nil))))"
      using UnmarshalJSON_object [OF False, of impl] assms(1) by simp
    with False enc show ?thesis
      by (simp add: json_Unmarshal_LifetimeInSeconds)
  qed
qed

theorem absent_key_witness:
  "member_of RawLifetimeInSeconds_field [(''alg'', JString ''HS256'')] = None
   \<and> LifetimeInSeconds ClientJWTConfiguration_zero = None
   \<and> fst (UnmarshalJSON amd64 ClientJWTConfiguration_zero (JObject [(''alg'', JString ''HS256'')]))
      = None
   \<and> LifetimeInSeconds
        (snd (UnmarshalJSON amd64 ClientJWTConfiguration_zero (JObject [(''alg'', JString ''HS256'')])))
      = None
   \<and> (\<exists>ms. MarshalJSON ClientJWTConfiguration_zero = JObject ms
          \<and> ''lifetime_in_seconds'' \<notin> fst ` set ms)"
proof -
  have h1: "member_of RawLifetimeInSeconds_field [(''alg'', JString ''HS256'')] = None"
    by code_simp
  have h2: "LifetimeInSeconds ClientJWTConfiguration_zero = None"
    by (simp add: ClientJWTConfiguration_zero_def)
  have ok: "\<not> fst (json_Unmarshal (JObject [(''alg'', JString ''HS256'')])
                     (ClientJWTConfiguration_zero, Nil))"
    by code_simp
  from absent_key [OF h1 h2, of amd64 ClientJWTConfiguration_zero] ok
  have "fst (UnmarshalJSON amd64 ClientJWTConfiguration_zero (JObject [(''alg'', JString ''HS256'')]))
          = None
        \<and> LifetimeInSeconds
             (snd (UnmarshalJSON amd64 ClientJWTConfiguration_zero
               (JObject [(''alg'', JString ''HS256'')])))
           = LifetimeInSeconds ClientJWTConfiguration_zero
        \<and> (\<exists>ms. MarshalJSON ClientJWTConfiguration_zero = JObject ms
               \<and> ''lifetime_in_seconds'' \<notin> fst ` set ms)"
    by presburger
  with h1 h2 show ?thesis
    by presburger
qed

text \<open>
  C5. Let the value of \<open>lifetime_in_seconds\<close> be a string that \<open>strconv.Atoi\<close>
  rejects, or a boolean. Then decoding never succeeds; the error returned is the one
  built from the message \<open>unexpected type for field lifetime_in_seconds\<close>, which ends
  with the name of the field, unless the decoder recorded a type error of its own, which
  \<open>UnmarshalJSON\<close> returns first.
\<close>

theorem malformed_lifetime:
  assumes "member_of RawLifetimeInSeconds_field kvs = Some v"
    and "(\<exists>s. v = JString s \<and> Atoi s = None) \<or> (\<exists>b. v = JBool b)"
  shows "fst (UnmarshalJSON impl jc (JObject kvs)) \<noteq> None
         \<and> (\<not> fst (json_Unmarshal (JObject kvs) (jc, Nil))
              \<longrightarrow> fst (UnmarshalJSON impl jc (JObject kvs)) = Some unexpectedTypeError)
         \<and> (\<exists>msg. unexpectedTypeError = Errorf msg \<and> suffix ''lifetime_in_seconds'' msg)"
proof -
  have named: "\<exists>msg. unexpectedTypeError = Errorf msg \<and> suffix ''lifetime_in_seconds'' msg"
    unfolding unexpectedTypeError_def by (simp add: suffix_def)
  show ?thesis
  proof (cases "fst (json_Unmarshal (JObject kvs) (jc, Nil))")
    case True
    then have "fst (UnmarshalJSON impl jc (JObject kvs)) = Some UnmarshalTypeError"
      by (cases "json_Unmarshal (JObject kvs) (jc, Nil)") (simp add: UnmarshalJSON_def)
    with True named show ?thesis by simp
  next
    case False
    have "fst (UnmarshalJSON impl jc (JObject kvs)) = Some unexpectedTypeError"
      using UnmarshalJSON_object [OF False, of impl] assms
      by (auto simp: decode_interface_def)
    with named show ?thesis by simp
  qed
qed

theorem malformed_lifetime_witness:
  "member_of RawLifetimeInSeconds_field [(''lifetime_in_seconds'', JString ''not-a-number'')]
     = Some (JString ''not-a-number'')
   \<and> Atoi ''not-a-number'' = None
   \<and> fst (UnmarshalJSON amd64 ClientJWTConfiguration_zero
            (JObject [(''lifetime_in_seconds'', JString ''not-a-number'')]))
      = Some (Errorf ''unexpected type for field lifetime_in_seconds'')
   \<and> member_of RawLifetimeInSeconds_field [(''lifetime_in_seconds'', JBool True)] = Some (JBool True)
   \<and> fst (UnmarshalJSON amd64 ClientJWTConfiguration_zero
            (JObject [(''lifetime_in_seconds'', JBool True)]))
      = Some (Errorf ''unexpected type for field lifetime_in_seconds'')"
proof -
  have s1: "member_of RawLifetimeInSeconds_field
              [(''lifetime_in_seconds'', JString ''not-a-number'')] = Some (JString ''not-a-number'')"
    by code_simp
  have s2: "Atoi ''not-a-number'' = None"
    by code_simp
  have s3: "\<not> fst (json_Unmarshal (JObject [(''lifetime_in_seconds'', JString ''not-a-number'')])
                     (ClientJWTConfiguration_zero, Nil))"
    by code_simp
  have b1: "member_of RawLifetimeInSeconds_field [(''lifetime_in_seconds'', JBool True)]
              = Some (JBool True)"
    by code_simp
  have b3: "\<not> fst (json_Unmarshal (JObject [(''lifetime_in_seconds'', JBool True)])
                     (ClientJWTConfiguration_zero, Nil))"
    by code_simp
  have "fst (UnmarshalJSON amd64 ClientJWTConfiguration_zero
            (JObject [(''lifetime_in_seconds'', JString ''not-a-number'')]))
      = Some unexpectedTypeError"
    using malformed_lifetime [OF s1, of amd64 ClientJWTConfiguration_zero] s2 s3 by blast
  moreover have "fst (UnmarshalJSON amd64 ClientJWTConfiguration_zero
            (JObject [(''lifetime_in_seconds'', JBool True)]))
      = Some unexpectedTypeError"
    using malformed_lifetime [OF b1, of amd64 ClientJWTConfiguration_zero] b3 by blast
  ultimately show ?thesis
    using s1 s2 b1 by (simp add: unexpectedTypeError_def)
qed

text \<open>
  C6, as stated, fails: the object \<open>{"lifetime_in_seconds": null}\<close> decodes without
  error. The decoder stores \<open>nil\<close> in \<open>RawLifetimeInSeconds\<close> for \<open>null\<close>, and
  the test \<open>alias.RawLifetimeInSeconds != nil\<close> then skips the type switch.
\<close>

theorem null_lifetime_counterexample:
  "UnmarshalJSON amd64 ClientJWTConfiguration_zero (JObject [(''lifetime_in_seconds'', JNull)])
     = (None, ClientJWTConfiguration_zero)"
  by code_simp

text \<open>
  C6, amended. When the value of \<open>lifetime_in_seconds\<close> is \<open>null\<close>, decoding
  reports nothing for that field, as when the key is absent: the call returns \<open>nil\<close>,
  unless the decoder found a type error in a member, which is then the error
  returned, and \<open>LifetimeInSeconds\<close> keeps the value the receiver had.
\<close>

theorem null_lifetime:
  assumes "member_of RawLifetimeInSeconds_field kvs = Some JNull"
  shows "fst (UnmarshalJSON impl jc (JObject kvs))
           = (if fst (json_Unmarshal (JObject kvs) (jc, Nil)) then Some UnmarshalTypeError else None)
         \<and> LifetimeInSeconds (snd (UnmarshalJSON impl jc (JObject kvs))) = LifetimeInSeconds jc"
proof (cases "fst (json_Unmarshal (JObject kvs) (jc, Nil))")
  case True
  then have "UnmarshalJSON impl jc (JObject kvs)
               = (Some UnmarshalTypeError, fst (snd (json_Unmarshal (JObject kvs) (jc, Nil))))"
    by (cases "json_Unmarshal (JObject kvs) (jc, Nil)") (simp add: UnmarshalJSON_def)
  with True show ?thesis
    by (simp add: json_Unmarshal_LifetimeInSeconds)
next
  case False
  have "UnmarshalJSON impl jc (JObject kvs)
          = (None, fst (snd (json_Unmarshal (JObject kvs) (jc, Nil))))"
    using UnmarshalJSON_object [OF False, of impl] assms
    by (simp add: decode_interface_def)
  with False show ?thesis
    by (simp add: json_Unmarshal_LifetimeInSeconds)
qed

theorem null_lifetime_witness:
  "member_of RawLifetimeInSeconds_field
     [(''lifetime_in_seconds'', JNumber 60), (''alg'', JString ''HS256''), (''lifetime_in_seconds'', JNull)]
     = Some JNull
   \<and> fst (UnmarshalJSON amd64 (ClientJWTConfiguration_zero\<lparr>LifetimeInSeconds := Some 7\<rparr>)
        (JObject [(''lifetime_in_seconds'', JNumber 60), (''alg'', JString ''HS256''),
                  (''lifetime_in_seconds'', JNull)])) = None
   \<and> LifetimeInSeconds
        (snd (UnmarshalJSON amd64 (ClientJWTConfiguration_zero\<lparr>LifetimeInSeconds := Some 7\<rparr>)
          (JObject [(''lifetime_in_seconds'', JNumber 60), (''alg'', JString ''HS256''),
                    (''lifetime_in_seconds'', JNull)]))) = Some 7"
proof -
  let ?jc = "ClientJWTConfiguration_zero\<lparr>LifetimeInSeconds := Some 7\<rparr>"
  let ?kvs = "[(''lifetime_in_seconds'', JNumber 60), (''alg'', JString ''HS256''),
               (''lifetime_in_seconds'', JNull)]"
  have h1: "member_of RawLifetimeInSeconds_field ?kvs = Some JNull"
    by code_simp
  have ok: "\<not> fst (json_Unmarshal (JObject ?kvs) (?jc, Nil))"
    by code_simp
  have l: "LifetimeInSeconds ?jc = Some 7"
    by simp
  from null_lifetime [OF h1, of amd64 ?jc] ok
  have "fst (UnmarshalJSON amd64 ?jc (JObject ?kvs)) = None
        \<and> LifetimeInSeconds (snd (UnmarshalJSON amd64 ?jc (JObject ?kvs))) = LifetimeInSeconds ?jc"
    by presburger
  with h1 l show ?thesis
    by presburger
qed

text \<open>
  What \<open>MarshalJSON\<close> writes for the other fields is decoded without a type
  error, into any receiver.
\<close>

lemma fold_decode_map_member_strings:
  "\<forall>kv\<in>set ms. \<exists>s. snd kv = JString s \<Longrightarrow> fst (fold decode_map_member ms st) = fst st"
  by (induction ms arbitrary: st) (auto simp: decode_map_member_def)

lemma decode_map_ptr_marshal_map: "\<not> fst (decode_map_ptr (marshal_map m) cur)"
proof (cases m)
  case None
  then show ?thesis by (simp add: marshal_map_def decode_map_ptr_def)
next
  case (Some al)
  let ?ms = "map (\<lambda>(k, v). (k, JString v)) (sort_key fst (AList.clearjunk al))"
  have "\<forall>kv\<in>set ?ms. \<exists>s. snd kv = JString s"
    by auto
  then have "fst (fold decode_map_member ?ms st) = fst st" for st
    by (rule fold_decode_map_member_strings)
  from this [of "(False, case cur of Some (Some m) \<Rightarrow> m | _ \<Rightarrow> [])"] show ?thesis
    using Some
    by (cases "fold decode_map_member ?ms (False, case cur of Some (Some m) \<Rightarrow> m | _ \<Rightarrow> [])")
      (simp add: marshal_map_def decode_map_ptr_def)
qed

lemma object_member_secret_encoded:
  "\<exists>j. object_member (''secret_encoded'', JBool b) (False, jc0, r) = (False, j, r)"
  by (simp add: object_member_def lookup_field_names decode_bool_ptr_def)

lemma object_member_alg:
  "\<exists>j. object_member (''alg'', JString s) (False, jc0, r) = (False, j, r)"
  by (simp add: object_member_def lookup_field_names decode_string_ptr_def)

lemma object_member_scopes:
  "\<exists>j. object_member (''scopes'', marshal_map m) (False, jc0, r) = (False, j, r)"
  using decode_map_ptr_marshal_map [of m "Scopes jc0"]
  by (cases "decode_map_ptr (marshal_map m) (Scopes jc0)")
    (simp add: object_member_def lookup_field_names)

lemma fold_object_member_marshalled:
  "\<exists>j. fold object_member
          ((case SecretEncoded jc of None \<Rightarrow> [] | Some b \<Rightarrow> [(''secret_encoded'', JBool b)])
           @ (case Scopes jc of None \<Rightarrow> [] | Some m \<Rightarrow> [(''scopes'', marshal_map m)])
           @ (case ClientJWTConfiguration.Algorithm jc of
                None \<Rightarrow> [] | Some s \<Rightarrow> [(''alg'', JString s)]))
          (False, jc0, r) = (False, j, r)"
proof -
  have "\<exists>j1. fold object_member
      (case SecretEncoded jc of None \<Rightarrow> [] | Some b \<Rightarrow> [(''secret_encoded'', JBool b)])
      (False, jc0, r) = (False, j1, r)"
    by (cases "SecretEncoded jc") (simp_all add: object_member_secret_encoded)
  then obtain j1 where 1: "fold object_member
      (case SecretEncoded jc of None \<Rightarrow> [] | Some b \<Rightarrow> [(''secret_encoded'', JBool b)])
      (False, jc0, r) = (False, j1, r)" ..
  have "\<exists>j2. fold object_member
      (case Scopes jc of None \<Rightarrow> [] | Some m \<Rightarrow> [(''scopes'', marshal_map m)])
      (False, j1, r) = (False, j2, r)"
    by (cases "Scopes jc") (simp_all add: object_member_scopes)
  then obtain j2 where 2: "fold object_member
      (case Scopes jc of None \<Rightarrow> [] | Some m \<Rightarrow> [(''scopes'', marshal_map m)])
      (False, j1, r) = (False, j2, r)" ..
  have "\<exists>j3. fold object_member
      (case ClientJWTConfiguration.Algorithm jc of None \<Rightarrow> [] | Some s \<Rightarrow> [(''alg'', JString s)])
      (False, j2, r) = (False, j3, r)"
    by (cases "ClientJWTConfiguration.Algorithm jc") (simp_all add: object_member_alg)
  then obtain j3 where 3: "fold object_member
      (case ClientJWTConfiguration.Algorithm jc of None \<Rightarrow> [] | Some s \<Rightarrow> [(''alg'', JString s)])
      (False, j2, r) = (False, j3, r)" ..
  show ?thesis
    using 1 2 3 by simp
qed

text \<open>
  C1, amended. For every \<open>n\<close> with \<open>0 \<le> n \<le> 2 ^ 53\<close>, encoding a record whose
  \<open>LifetimeInSeconds\<close> is \<open>n\<close> and decoding the result, into any receiver, returns no
  error and yields \<open>LifetimeInSeconds = n\<close>.
\<close>

theorem roundtrip_LifetimeInSeconds:
  assumes "0 \<le> sint n" and "sint n \<le> 2 ^ 53"
  shows "fst (UnmarshalJSON impl jc0 (MarshalJSON (jc\<lparr>LifetimeInSeconds := Some n\<rparr>))) = None
         \<and> LifetimeInSeconds
              (snd (UnmarshalJSON impl jc0 (MarshalJSON (jc\<lparr>LifetimeInSeconds := Some n\<rparr>))))
            = Some n"
proof -
  let ?jc = "jc\<lparr>LifetimeInSeconds := Some n\<rparr>"
  let ?others =
    "(case SecretEncoded jc of None \<Rightarrow> [] | Some b \<Rightarrow> [(''secret_encoded'', JBool b)])
     @ (case Scopes jc of None \<Rightarrow> [] | Some m \<Rightarrow> [(''scopes'', marshal_map m)])
     @ (case ClientJWTConfiguration.Algorithm jc of
          None \<Rightarrow> [] | Some s \<Rightarrow> [(''alg'', JString s)])"
  have m: "MarshalJSON ?jc
             = JObject (?others @ [(''lifetime_in_seconds'', JNumber (of_int (sint n)))])"
    using MarshalJSON_object [of ?jc] by (simp add: MarshalJSON_members)
  obtain j where j: "fold object_member ?others (False, jc0, Nil) = (False, j, Nil)"
    using fold_object_member_marshalled by blast
  let ?x = "signed n :: rat"
  have x: "rat_of_int (sint n) = ?x"
    by simp
  have p: "ParseFloat64 ?x = Some ?x"
    using ParseFloat64_of_int [OF assms] by simp
  have "sint n < 2 ^ 63"
    using assms(2) by simp
  then have c: "int_of_float64 impl ?x = n"
    using assms(1) int_of_float64_of_int [of "sint n" impl] by simp
  have last: "object_member (''lifetime_in_seconds'', JNumber ?x) (False, j, Nil)
                = (False, j, Float64 ?x)"
    by (simp add: object_member_def decode_interface_def lookup_field_names p)
  have "json_Unmarshal (MarshalJSON ?jc) (jc0, Nil)
          = object_member (''lifetime_in_seconds'', JNumber ?x)
              (fold object_member ?others (False, jc0, Nil))"
    unfolding m json_Unmarshal_def x
    by (simp only: json.case fold_append o_apply fold.simps fst_conv snd_conv id_apply)
  then have "json_Unmarshal (MarshalJSON ?jc) (jc0, Nil) = (False, j, Float64 ?x)"
    by (simp only: j last)
  then have "UnmarshalJSON impl jc0 (MarshalJSON ?jc) = (None, j\<lparr>LifetimeInSeconds := Some n\<rparr>)"
    by (simp add: UnmarshalJSON_def c)
  then show ?thesis by simp
qed

theorem roundtrip_LifetimeInSeconds_witness:
  "0 \<le> sint (9007199254740992 :: go_int) \<and> sint (9007199254740992 :: go_int) \<le> 2 ^ 53
   \<and> fst (UnmarshalJSON amd64 ClientJWTConfiguration_zero
        (MarshalJSON (ClientJWTConfiguration_zero\<lparr>LifetimeInSeconds := Some 9007199254740992\<rparr>)))
      = None
   \<and> LifetimeInSeconds (snd (UnmarshalJSON amd64 ClientJWTConfiguration_zero
        (MarshalJSON (ClientJWTConfiguration_zero\<lparr>LifetimeInSeconds := Some 9007199254740992\<rparr>))))
      = Some 9007199254740992"
proof -
  have h1: "0 \<le> sint (9007199254740992 :: go_int)" by simp
  have h2: "sint (9007199254740992 :: go_int) \<le> 2 ^ 53" by simp
  from roundtrip_LifetimeInSeconds [OF h1 h2, of amd64 ClientJWTConfiguration_zero
      ClientJWTConfiguration_zero] h1 h2
  show ?thesis by blast
qed

text \<open>
  C1, as stated, fails above \<open>2 ^ 53\<close>. \<open>MarshalJSON\<close> writes the integer in full,
  but \<open>UnmarshalJSON\<close> reads a number through \<open>float64\<close>, which has 53 bits of
  mantissa: \<open>9007199254740993 = 2 ^ 53 + 1\<close> comes back as \<open>9007199254740992\<close>.
\<close>

theorem roundtrip_counterexample:
  "0 \<le> sint (9007199254740993 :: go_int)
   \<and> LifetimeInSeconds (snd (UnmarshalJSON amd64 ClientJWTConfiguration_zero
        (MarshalJSON (ClientJWTConfiguration_zero\<lparr>LifetimeInSeconds := Some 9007199254740993\<rparr>))))
      = Some 9007199254740992
   \<and> (9007199254740992 :: go_int) \<noteq> 9007199254740993"
proof -
  have "LifetimeInSeconds (snd (UnmarshalJSON amd64 ClientJWTConfiguration_zero
        (MarshalJSON (ClientJWTConfiguration_zero\<lparr>LifetimeInSeconds := Some 9007199254740993\<rparr>))))
      = Some 9007199254740992"
    by code_simp
  then show ?thesis by simp
qed


text \<open>
  C3. Let decoding succeed on an object whose value for \<open>lifetime_in_seconds\<close> is a
  string \<open>s\<close>. Then \<open>s\<close> parses to an integer \<open>n\<close>, and encoding the decoded record
  writes exactly one member with the key \<open>lifetime_in_seconds\<close>, the number \<open>n\<close>; no
  member with that key is a string.
\<close>

theorem reencode_string_as_number:
  assumes "member_of RawLifetimeInSeconds_field kvs = Some (JString s)"
    and "UnmarshalJSON impl jc (JObject kvs) = (None, jc')"
  shows "\<exists>n ms. Atoi s = Some n \<and> LifetimeInSeconds jc' = Some n
           \<and> MarshalJSON jc'
               = JObject (ms @ [(''lifetime_in_seconds'', JNumber (of_int (sint n)))])
           \<and> ''lifetime_in_seconds'' \<notin> fst ` set ms
           \<and> (\<forall>t. (''lifetime_in_seconds'', JString t) \<notin> set (members (MarshalJSON jc')))"
proof -
  have ne: "\<not> fst (json_Unmarshal (JObject kvs) (jc, Nil))"
    using assms(2)
    by (cases "json_Unmarshal (JObject kvs) (jc, Nil)") (auto simp: UnmarshalJSON_def)
  obtain n where n: "Atoi s = Some n" and l: "LifetimeInSeconds jc' = Some n"
    using UnmarshalJSON_object [OF ne, of impl] assms
    by (auto simp: decode_interface_def Let_def split: option.splits)
  let ?ms =
    "(case SecretEncoded jc' of None \<Rightarrow> [] | Some b \<Rightarrow> [(''secret_encoded'', JBool b)])
     @ (case Scopes jc' of None \<Rightarrow> [] | Some m \<Rightarrow> [(''scopes'', marshal_map m)])
     @ (case ClientJWTConfiguration.Algorithm jc' of
          None \<Rightarrow> [] | Some s \<Rightarrow> [(''alg'', JString s)])"
  have mem: "members (MarshalJSON jc')
               = ?ms @ [(''lifetime_in_seconds'', JNumber (of_int (sint n)))]"
    using l by (simp add: MarshalJSON_members)
  have k: "''lifetime_in_seconds'' \<notin> fst ` set ?ms"
    by (auto split: option.splits)
  have "\<forall>t. (''lifetime_in_seconds'', JString t) \<notin> set (members (MarshalJSON jc'))"
    unfolding mem using k by (auto split: option.splits)
  moreover have "MarshalJSON jc'
      = JObject (?ms @ [(''lifetime_in_seconds'', JNumber (of_int (sint n)))])"
    using MarshalJSON_object [of jc'] mem by simp
  ultimately show ?thesis
    using n l k by blast
qed

theorem reencode_string_as_number_witness:
  "member_of RawLifetimeInSeconds_field [(''lifetime_in_seconds'', JString ''3600'')]
     = Some (JString ''3600'')
   \<and> UnmarshalJSON amd64 ClientJWTConfiguration_zero
        (JObject [(''lifetime_in_seconds'', JString ''3600'')])
      = (None, ClientJWTConfiguration_zero\<lparr>LifetimeInSeconds := Some 3600\<rparr>)
   \<and> MarshalJSON (ClientJWTConfiguration_zero\<lparr>LifetimeInSeconds := Some 3600\<rparr>)
      = JObject [(''lifetime_in_seconds'', JNumber 3600)]"
proof -
  have h1: "member_of RawLifetimeInSeconds_field [(''lifetime_in_seconds'', JString ''3600'')]
     = Some (JString ''3600'')"
    by code_simp
  have h2: "UnmarshalJSON amd64 ClientJWTConfiguration_zero
        (JObject [(''lifetime_in_seconds'', JString ''3600'')])
      = (None, ClientJWTConfiguration_zero\<lparr>LifetimeInSeconds := Some 3600\<rparr>)"
    by code_simp
  have h3: "Atoi ''3600'' = Some 3600"
    by code_simp
  have z: "members (MarshalJSON (ClientJWTConfiguration_zero\<lparr>LifetimeInSeconds := Some 3600\<rparr>))
             = [(''lifetime_in_seconds'', JNumber 3600)]"
    by (simp add: MarshalJSON_members ClientJWTConfiguration_zero_def)
  from reencode_string_as_number [OF h1 h2] obtain n ms
    where "Atoi ''3600'' = Some n"
      and "MarshalJSON (ClientJWTConfiguration_zero\<lparr>LifetimeInSeconds := Some 3600\<rparr>)
             = JObject (ms @ [(''lifetime_in_seconds'', JNumber (of_int (sint n)))])"
    by blast
  with h3 z have "MarshalJSON (ClientJWTConfiguration_zero\<lparr>LifetimeInSeconds := Some 3600\<rparr>)
      = JObject [(''lifetime_in_seconds'', JNumber 3600)]"
    by simp
  with h1 h2 show ?thesis by simp
qed

text \<open>The value a successful or failed run leaves in the other fields.\<close>

lemma object_member_Algorithm:
  "ClientJWTConfiguration.Algorithm (fst (snd (object_member kv st))) =
     (if lookup_field (fst kv) = Some Algorithm_field
      then snd (decode_string_ptr (snd kv) (ClientJWTConfiguration.Algorithm (fst (snd st))))
      else ClientJWTConfiguration.Algorithm (fst (snd st)))"
  by (cases st)
    (auto simp: object_member_def Let_def split: option.splits field.splits prod.splits)

lemma object_member_SecretEncoded:
  "SecretEncoded (fst (snd (object_member kv st))) =
     (if lookup_field (fst kv) = Some SecretEncoded_field
      then snd (decode_bool_ptr (snd kv) (SecretEncoded (fst (snd st))))
      else SecretEncoded (fst (snd st)))"
  by (cases st)
    (auto simp: object_member_def Let_def split: option.splits field.splits prod.splits)

lemma object_member_Scopes:
  "Scopes (fst (snd (object_member kv st))) =
     (if lookup_field (fst kv) = Some Scopes_field
      then snd (decode_map_ptr (snd kv) (Scopes (fst (snd st))))
      else Scopes (fst (snd st)))"
  by (cases st)
    (auto simp: object_member_def Let_def split: option.splits field.splits prod.splits)

lemma fold_object_member_Algorithm:
  "member_of Algorithm_field kvs = Some (JString a) \<Longrightarrow>
     ClientJWTConfiguration.Algorithm (fst (snd (fold object_member kvs st))) = Some a"
proof (induction kvs rule: rev_induct)
  case Nil
  then show ?case by (simp add: member_of_Nil)
next
  case (snoc kv kvs)
  then show ?case
    by (auto simp: member_of_snoc object_member_Algorithm decode_string_ptr_def
        split: if_splits)
qed

lemma fold_object_member_SecretEncoded:
  "member_of SecretEncoded_field kvs = Some (JBool v) \<Longrightarrow>
     SecretEncoded (fst (snd (fold object_member kvs st))) = Some v"
proof (induction kvs rule: rev_induct)
  case Nil
  then show ?case by (simp add: member_of_Nil)
next
  case (snoc kv kvs)
  then show ?case
    by (auto simp: member_of_snoc object_member_SecretEncoded decode_bool_ptr_def
        split: if_splits)
qed

lemma fold_object_member_Scopes:
  "member_of Scopes_field kvs = Some (JObject ms) \<Longrightarrow>
     \<exists>e m0. Scopes (fst (snd (fold object_member kvs st)))
              = Some (Some (snd (fold decode_map_member ms (e, m0))))"
proof (induction kvs rule: rev_induct)
  case Nil
  then show ?case by (simp add: member_of_Nil)
next
  case (snoc kv kvs)
  show ?case
  proof (cases "lookup_field (fst kv) = Some Scopes_field")
    case True
    with snoc.prems have v: "snd kv = JObject ms"
      by (simp add: member_of_snoc)
    let ?cur = "Scopes (fst (snd (fold object_member kvs st)))"
    let ?m0 = "case ?cur of Some (Some m) \<Rightarrow> m | _ \<Rightarrow> []"
    have "snd (decode_map_ptr (JObject ms) ?cur)
            = Some (Some (snd (fold decode_map_member ms (False, ?m0))))"
      by (cases "fold decode_map_member ms (False, ?m0)") (simp add: decode_map_ptr_def)
    with True v show ?thesis
      by (auto simp: object_member_Scopes)
  next
    case False
    with snoc show ?thesis
      by (simp add: member_of_snoc object_member_Scopes)
  qed
qed

lemma fold_decode_map_member_binding:
  "map_of (rev ms) k = Some (JString s) \<Longrightarrow>
     map_of (snd (fold decode_map_member ms st)) k = Some s"
proof (induction ms rule: rev_induct)
  case Nil
  then show ?case by simp
next
  case (snoc kv ms)
  then show ?case
    by (cases kv; cases "snd kv")
      (auto simp: decode_map_member_def update_conv' split: if_splits)
qed

text \<open>
  C10. When \<open>UnmarshalJSON\<close> returns the error for a malformed
  \<open>lifetime_in_seconds\<close>, the receiver is left as \<open>json.Unmarshal\<close> filled it:
  \<open>SecretEncoded\<close> and \<open>Algorithm\<close> hold the boolean and the string the object gives
  them, \<open>Scopes\<close> holds a map with the string bindings of the object's \<open>scopes\<close>, and
  only \<open>LifetimeInSeconds\<close> is as before. The sample shows a record that differs from
  the one the call started with although an error is returned.
\<close>

theorem decode_not_atomic:
  assumes "UnmarshalJSON impl jc b = (Some unexpectedTypeError, jc')"
  shows "jc' = fst (snd (json_Unmarshal b (jc, Nil)))
         \<and> LifetimeInSeconds jc' = LifetimeInSeconds jc
         \<and> (\<forall>v. member_of SecretEncoded_field (members b) = Some (JBool v)
                \<longrightarrow> SecretEncoded jc' = Some v)
         \<and> (\<forall>a. member_of Algorithm_field (members b) = Some (JString a)
                \<longrightarrow> ClientJWTConfiguration.Algorithm jc' = Some a)
         \<and> (\<forall>ms. member_of Scopes_field (members b) = Some (JObject ms)
                \<longrightarrow> (\<exists>m. Scopes jc' = Some (Some m)
                        \<and> (\<forall>k s. map_of (rev ms) k = Some (JString s) \<longrightarrow> map_of m k = Some s)))"
proof -
  obtain e j r where u: "json_Unmarshal b (jc, Nil) = (e, j, r)"
    by (cases "json_Unmarshal b (jc, Nil)") auto
  have e: "\<not> e"
    using assms u by (auto simp: UnmarshalJSON_def unexpectedTypeError_def)
  have jc': "jc' = j"
    using assms u e
    by (auto simp: UnmarshalJSON_def split: iface.splits option.splits)
  have "r \<noteq> Nil"
    using assms u e by (auto simp: UnmarshalJSON_def)
  then obtain kvs where b: "b = JObject kvs"
    using u by (cases b) (auto simp: json_Unmarshal_def)
  have j: "j = fst (snd (fold object_member kvs (False, jc, Nil)))"
    using u b by (simp add: json_Unmarshal_def)
  have 1: "jc' = fst (snd (json_Unmarshal b (jc, Nil)))"
    using jc' u by simp
  have 2: "LifetimeInSeconds jc' = LifetimeInSeconds jc"
    unfolding 1 by (rule json_Unmarshal_LifetimeInSeconds)
  have 3: "SecretEncoded jc' = Some v"
    if "member_of SecretEncoded_field (members b) = Some (JBool v)" for v
    using that fold_object_member_SecretEncoded [of kvs v "(False, jc, Nil)"]
    by (simp add: b jc' j)
  have 4: "ClientJWTConfiguration.Algorithm jc' = Some a"
    if "member_of Algorithm_field (members b) = Some (JString a)" for a
    using that fold_object_member_Algorithm [of kvs a "(False, jc, Nil)"]
    by (simp add: b jc' j)
  have 5: "\<exists>m. Scopes jc' = Some (Some m)
              \<and> (\<forall>k s. map_of (rev ms) k = Some (JString s) \<longrightarrow> map_of m k = Some s)"
    if "member_of Scopes_field (members b) = Some (JObject ms)" for ms
  proof -
    have "member_of Scopes_field kvs = Some (JObject ms)"
      using that by (simp add: b)
    from fold_object_member_Scopes [OF this, of "(False, jc, Nil)"]
    obtain e0 m0 where "Scopes jc' = Some (Some (snd (fold decode_map_member ms (e0, m0))))"
      unfolding jc' j by blast
    then show ?thesis
      using fold_decode_map_member_binding by blast
  qed
  from 1 2 3 4 5 show ?thesis by blast
qed

theorem decode_not_atomic_witness:
  "UnmarshalJSON amd64 ClientJWTConfiguration_zero
     (JObject [(''secret_encoded'', JBool True),
               (''scopes'', JObject [(''read'', JString ''r'')]),
               (''alg'', JString ''RS256''),
               (''lifetime_in_seconds'', JString ''not-a-number'')])
     = (Some unexpectedTypeError,
        ClientJWTConfiguration_zero
          \<lparr>SecretEncoded := Some True, Scopes := Some (Some [(''read'', ''r'')]),
           ClientJWTConfiguration.Algorithm := Some ''RS256''\<rparr>)
   \<and> ClientJWTConfiguration_zero
        \<lparr>SecretEncoded := Some True, Scopes := Some (Some [(''read'', ''r'')]),
         ClientJWTConfiguration.Algorithm := Some ''RS256''\<rparr>
      = fst (snd (json_Unmarshal
          (JObject [(''secret_encoded'', JBool True),
                    (''scopes'', JObject [(''read'', JString ''r'')]),
                    (''alg'', JString ''RS256''),
                    (''lifetime_in_seconds'', JString ''not-a-number'')])
          (ClientJWTConfiguration_zero, Nil)))
   \<and> ClientJWTConfiguration_zero
        \<lparr>SecretEncoded := Some True, Scopes := Some (Some [(''read'', ''r'')]),
         ClientJWTConfiguration.Algorithm := Some ''RS256''\<rparr>
      \<noteq> ClientJWTConfiguration_zero"
proof -
  have h: "UnmarshalJSON amd64 ClientJWTConfiguration_zero
     (JObject [(''secret_encoded'', JBool True),
               (''scopes'', JObject [(''read'', JString ''r'')]),
               (''alg'', JString ''RS256''),
               (''lifetime_in_seconds'', JString ''not-a-number'')])
     = (Some unexpectedTypeError,
        ClientJWTConfiguration_zero
          \<lparr>SecretEncoded := Some True, Scopes := Some (Some [(''read'', ''r'')]),
           ClientJWTConfiguration.Algorithm := Some ''RS256''\<rparr>)"
    by code_simp
  have n: "ClientJWTConfiguration_zero
        \<lparr>SecretEncoded := Some True, Scopes := Some (Some [(''read'', ''r'')]),
         ClientJWTConfiguration.Algorithm := Some ''RS256''\<rparr>
      \<noteq> ClientJWTConfiguration_zero"
    by (simp add: ClientJWTConfiguration_zero_def)
  from decode_not_atomic [OF h] h n show ?thesis
    by blast
qed

section \<open>Properties of \<open>UpdateCredential\<close>\<close>

text \<open>
  A request with the stripped payload, through a transport that writes only through
  its payload, can change what the caller's credential reads in \<open>ExpiresAt\<close> only.
\<close>

lemma view_after_request:
  assumes w: "writes_through_payload m"
    and a: "apart h credential"
    and r: "Request m method uri (Credential_zero\<lparr>ExpiresAt := ExpiresAt credential\<rparr>) opts h
              = (e, left, h')"
  shows "(view h' credential)\<lparr>ExpiresAt := None\<rparr> = (view h credential)\<lparr>ExpiresAt := None\<rparr>"
proof -
  let ?clone = "Credential_zero\<lparr>ExpiresAt := ExpiresAt credential\<rparr>"
  have p: "pointers ?clone = set_option (ExpiresAt credential)"
    by (simp add: pointers_def Credential_zero_def)
  have same: "h' x = h x" if "x \<in> pointers (credential\<lparr>ExpiresAt := None\<rparr>)" for x
  proof -
    from a that have "h x \<noteq> None" and "Some x \<noteq> ExpiresAt credential"
      by (auto simp: apart_def)
    then have "x \<notin> pointers ?clone"
      unfolding p by (cases "ExpiresAt credential") auto
    with w \<open>h x \<noteq> None\<close>
    have "snd (snd (Request m method uri ?clone opts h)) x = h x"
      unfolding writes_through_payload_def by blast
    then show ?thesis
      using r by simp
  qed
  have b: "Option.bind q h' = Option.bind q h"
    if "set_option q \<subseteq> pointers (credential\<lparr>ExpiresAt := None\<rparr>)" for q
    using that same by (cases q) auto
  show ?thesis
    by (simp add: view_def) (intro conjI b; auto simp: pointers_def)
qed

text \<open>
  C7. When the PATCH succeeds, the caller's credential has ID, Name, CredentialType,
  KeyID, Algorithm, CreatedAt, UpdatedAt and ExpiresAt overwritten with what the
  exchange left in the payload (the fields the server returned), PEM and
  ParseExpiryFromCert keep the pointers they had, the heap is the one the exchange
  left, and one request was issued: there is no second fetch. If the transport writes
  only through the pointers of its payload, PEM and ParseExpiryFromCert also read the
  values they read before.
\<close>

theorem UpdateCredential_success:
  assumes "Request m ''PATCH'' (URI m [''clients'', clientID, ''credentials'', credentialID])
             (Credential_zero\<lparr>ExpiresAt := ExpiresAt credential\<rparr>) opts h
           = (None, returned, h')"
  shows "case UpdateCredential m clientID credentialID credential opts (h, sent) of
           (err, credential', h'', sent') \<Rightarrow>
             err = None
             \<and> ID credential' = ID returned
             \<and> Name credential' = Name returned
             \<and> CredentialType credential' = CredentialType returned
             \<and> KeyID credential' = KeyID returned
             \<and> Algorithm credential' = Algorithm returned
             \<and> CreatedAt credential' = CreatedAt returned
             \<and> UpdatedAt credential' = UpdatedAt returned
             \<and> ExpiresAt credential' = ExpiresAt returned
             \<and> PEM credential' = PEM credential
             \<and> ParseExpiryFromCert credential' = ParseExpiryFromCert credential
             \<and> h'' = h'
             \<and> length sent' = length sent + 1
             \<and> (writes_through_payload m \<and> apart h credential
                  \<longrightarrow> PEM (view h'' credential') = PEM (view h credential)
                      \<and> ParseExpiryFromCert (view h'' credential')
                          = ParseExpiryFromCert (view h credential))"
proof -
  let ?clone = "Credential_zero\<lparr>ExpiresAt := ExpiresAt credential\<rparr>"
  let ?uri = "URI m [''clients'', clientID, ''credentials'', credentialID]"
  have v: "PEM (view h' credential) = PEM (view h credential)
           \<and> ParseExpiryFromCert (view h' credential) = ParseExpiryFromCert (view h credential)"
    if w: "writes_through_payload m" and a: "apart h credential"
  proof -
    have "(view h' credential)\<lparr>ExpiresAt := None\<rparr> = (view h credential)\<lparr>ExpiresAt := None\<rparr>"
      using w a assms by (rule view_after_request)
    then show ?thesis
      by (simp add: view_def)
  qed
  show ?thesis
    using assms v by (simp add: UpdateCredential_def call_def view_def)
qed

theorem UpdateCredential_success_witness:
  "Request answering ''PATCH'' (URI answering [''clients'', ''c'', ''credentials'', ''k''])
     (Credential_zero\<lparr>ExpiresAt := ExpiresAt held\<rparr>) [] store
     = (None,
        \<lparr>ID = Some 1, Name = Some 2, KeyID = Some 3, CredentialType = Some 4,
         PEM = None, Algorithm = Some 5, ParseExpiryFromCert = None,
         CreatedAt = Some 6, UpdatedAt = Some 7, ExpiresAt = Some 13\<rparr>,
        [1 \<mapsto> ''cred_1'', 2 \<mapsto> ''key'', 3 \<mapsto> ''kid'', 4 \<mapsto> ''public_key'',
         5 \<mapsto> ''RS256'', 6 \<mapsto> ''2024-01-01T00:00:00Z'', 7 \<mapsto> ''2024-06-01T00:00:00Z'']
        ++ store(13 \<mapsto> ''2030-01-01T00:00:00Z''))
   \<and> writes_through_payload answering
   \<and> apart store held
   \<and> fst (UpdateCredential answering ''c'' ''k'' held [] (store, [])) = None
   \<and> fst (snd (UpdateCredential answering ''c'' ''k'' held [] (store, [])))
      = \<lparr>ID = Some 1, Name = Some 2, KeyID = Some 3, CredentialType = Some 4,
         PEM = Some 11, Algorithm = Some 5, ParseExpiryFromCert = Some 12,
         CreatedAt = Some 6, UpdatedAt = Some 7, ExpiresAt = Some 13\<rparr>
   \<and> length (snd (snd (snd (UpdateCredential answering ''c'' ''k'' held [] (store, []))))) = 1
   \<and> PEM (view (fst (snd (snd (UpdateCredential answering ''c'' ''k'' held [] (store, [])))))
             (fst (snd (UpdateCredential answering ''c'' ''k'' held [] (store, [])))))
      = Some ''-----BEGIN PUBLIC KEY-----''
   \<and> ParseExpiryFromCert
        (view (fst (snd (snd (UpdateCredential answering ''c'' ''k'' held [] (store, [])))))
              (fst (snd (UpdateCredential answering ''c'' ''k'' held [] (store, [])))))
      = Some ''true''"
proof -
  let ?h' = "[1 \<mapsto> ''cred_1'', 2 \<mapsto> ''key'', 3 \<mapsto> ''kid'', 4 \<mapsto> ''public_key'',
         5 \<mapsto> ''RS256'', 6 \<mapsto> ''2024-01-01T00:00:00Z'', 7 \<mapsto> ''2024-06-01T00:00:00Z'']
        ++ store(13 \<mapsto> ''2030-01-01T00:00:00Z'')"
  have r: "Request answering ''PATCH'' (URI answering [''clients'', ''c'', ''credentials'', ''k''])
     (Credential_zero\<lparr>ExpiresAt := ExpiresAt held\<rparr>) [] store
     = (None,
        \<lparr>ID = Some 1, Name = Some 2, KeyID = Some 3, CredentialType = Some 4,
         PEM = None, Algorithm = Some 5, ParseExpiryFromCert = None,
         CreatedAt = Some 6, UpdatedAt = Some 7, ExpiresAt = Some 13\<rparr>,
        ?h')"
    by (simp add: answering_def held_def Credential_zero_def)
  have w: "writes_through_payload answering"
    by (auto simp: writes_through_payload_def answering_def pointers_def map_add_def
        split: option.splits)
  have a: "apart store held"
    by (simp add: apart_def pointers_def held_def store_def)
  have before: "PEM (view store held) = Some ''-----BEGIN PUBLIC KEY-----''
                \<and> ParseExpiryFromCert (view store held) = Some ''true''"
    by (simp add: view_def held_def store_def)
  obtain err credential' h'' sent'
    where u: "UpdateCredential answering ''c'' ''k'' held [] (store, [])
                = (err, credential', h'', sent')"
    by (cases "UpdateCredential answering ''c'' ''k'' held [] (store, [])") auto
  note f = UpdateCredential_success [OF r, of "[]", unfolded u prod.case]
  have t: "err = None
        \<and> ID credential' = Some 1 \<and> Name credential' = Some 2
        \<and> CredentialType credential' = Some 4 \<and> KeyID credential' = Some 3
        \<and> Algorithm credential' = Some 5 \<and> CreatedAt credential' = Some 6
        \<and> UpdatedAt credential' = Some 7 \<and> ExpiresAt credential' = Some 13
        \<and> PEM credential' = PEM held
        \<and> ParseExpiryFromCert credential' = ParseExpiryFromCert held
        \<and> length sent' = 1
        \<and> PEM (view h'' credential') = PEM (view store held)
        \<and> ParseExpiryFromCert (view h'' credential') = ParseExpiryFromCert (view store held)"
    using f w a by auto
  then have "credential' = \<lparr>ID = Some 1, Name = Some 2, KeyID = Some 3, CredentialType = Some 4,
         PEM = Some 11, Algorithm = Some 5, ParseExpiryFromCert = Some 12,
         CreatedAt = Some 6, UpdatedAt = Some 7, ExpiresAt = Some 13\<rparr>"
    by (cases credential') (simp add: held_def)
  moreover from t before
  have "PEM (view h'' credential') = Some ''-----BEGIN PUBLIC KEY-----''
        \<and> ParseExpiryFromCert (view h'' credential') = Some ''true''"
    by simp
  ultimately show ?thesis
    unfolding u using r w a t by (simp only: fst_conv snd_conv)
qed

text \<open>
  C8. Whatever credential is passed in, \<open>UpdateCredential\<close> issues one request, a
  PATCH to \<open>clients/{clientID}/credentials/{credentialID}\<close>, whose payload has
  \<open>ExpiresAt\<close> of the input and every other field \<open>nil\<close>: that request is what is
  added to the requests issued, and the error returned and the heap left are the ones
  \<open>m.Request\<close> gives when it is applied to that payload.
\<close>

theorem UpdateCredential_payload:
  "snd (snd (snd (UpdateCredential m clientID credentialID credential opts (h, sent))))
     = sent @ [(''PATCH'', URI m [''clients'', clientID, ''credentials'', credentialID],
                \<lparr>ID = None, Name = None, KeyID = None, CredentialType = None, PEM = None,
                 Algorithm = None, ParseExpiryFromCert = None, CreatedAt = None,
                 UpdatedAt = None, ExpiresAt = ExpiresAt credential\<rparr>,
                opts)]
   \<and> fst (UpdateCredential m clientID credentialID credential opts (h, sent))
     = fst (Request m ''PATCH'' (URI m [''clients'', clientID, ''credentials'', credentialID])
              \<lparr>ID = None, Name = None, KeyID = None, CredentialType = None, PEM = None,
               Algorithm = None, ParseExpiryFromCert = None, CreatedAt = None,
               UpdatedAt = None, ExpiresAt = ExpiresAt credential\<rparr> opts h)
   \<and> fst (snd (snd (UpdateCredential m clientID credentialID credential opts (h, sent))))
     = snd (snd (Request m ''PATCH'' (URI m [''clients'', clientID, ''credentials'', credentialID])
              \<lparr>ID = None, Name = None, KeyID = None, CredentialType = None, PEM = None,
               Algorithm = None, ParseExpiryFromCert = None, CreatedAt = None,
               UpdatedAt = None, ExpiresAt = ExpiresAt credential\<rparr> opts h))"
  by (simp add: UpdateCredential_def call_def Credential_zero_def Let_def
      split: prod.split option.split)




end
